theory Spec2Isabelle
  imports Main "HOL-Library.Word"
begin

section \<open>Identifiers\<close>

text \<open>
  \<^verbatim>\<open>api::UUID\<close> is declared outside this repository (message_api). It is a 128-bit
  value with a reserved null value and a total order (\<^verbatim>\<open>operator<\<close>, used by the node
  tie-break and by every \<^verbatim>\<open>std::map<api::UUID, ...>\<close>). It is modelled as the
  natural number it denotes; the null id is 0.
\<close>

type_synonym UUID = nat

definition UUID_null :: UUID where
  "UUID_null = 0"

section \<open>HTTP ban list (BanList.cc, UrlRouter.cc)\<close>









text \<open>
  HTTP status codes (http_types.h is outside the repository; the values are the
  standard ones).
\<close>

definition HTTP_OK :: nat where "HTTP_OK = 200"
definition HTTP_NOT_FOUND :: nat where "HTTP_NOT_FOUND = 404"
definition HTTP_RESOURCE_CONFLICT :: nat where "HTTP_RESOURCE_CONFLICT = 409"
definition HTTP_INTERNAL_SERVER_ERROR :: nat where "HTTP_INTERNAL_SERVER_ERROR = 500"





section \<open>Containers\<close>

text \<open>
  A \<^verbatim>\<open>std::map<K, V>\<close> whose iteration order matters is an association list kept in
  ascending key order; \<open>map_of\<close> is \<^verbatim>\<open>find\<close>, and \<open>map_set\<close> is \<^verbatim>\<open>m[k] = v\<close>.
\<close>

fun map_set :: "('k::linorder \<times> 'v) list \<Rightarrow> 'k \<Rightarrow> 'v \<Rightarrow> ('k \<times> 'v) list" where
  "map_set [] k v = [(k, v)]"
| "map_set ((k', v') # m) k v =
     (if k < k' then (k, v) # (k', v') # m
      else if k = k' then (k, v) # m
      else (k', v') # map_set m k v)"

section \<open>Sessions (Session.cc, Computation.cc, ArrasController.cc, ArrasSessions.cc)\<close>

subsection \<open>Errors, messages and effects\<close>

text \<open>
  \<^verbatim>\<open>SessionError(detail, httpCode = 500)\<close> and the \<^verbatim>\<open>std::runtime_error\<close> of the
  \<^verbatim>\<open>SessionConfig\<close> constructor.
\<close>

datatype Error = SessionError string nat | RuntimeError string

fun httpCode :: "Error \<Rightarrow> nat option" where
  "httpCode (SessionError d c) = Some c"
| "httpCode (RuntimeError d) = None"

text \<open>
  The signal object of \<^verbatim>\<open>PUT sessions/{id}/status\<close>: \<open>sig_status\<close> is its "status" member
  when that is a string, \<open>sig_routing\<close> its "routing" member (\<open>None\<close> when null), which
  holds the client addresser rules.
\<close>

record SignalData =
  sig_status :: "string option"
  sig_routing :: "string option"

datatype SessionRoutingAction = Initialize | Update | Delete | Acknowledge

text \<open>What the controller sends to the router with \<^verbatim>\<open>mDispatcher.send\<close>.\<close>

datatype Message =
    SessionRoutingDataMessage SessionRoutingAction UUID
  | ClientConnectionStatus UUID string
  | ControlMessage UUID UUID string "SignalData option"
  | EngineReadyMessage UUID

text \<open>
  What an operation does to the outside: a message to the router, an event for the
  orchestrator (session id, event type, reason), and the calls on the child processes
  (\<^verbatim>\<open>impl::Process\<close> is outside the repository).
\<close>

datatype Effect =
    Send Message
  | Event UUID string string
  | Terminate UUID
  | WaitUntilExit UUID bool
  | Spawn UUID
  | Kill_SIGSTOP UUID

subsection \<open>Computations\<close>

text \<open>
  Modelled from the spec: \<^verbatim>\<open>impl::ProcessState\<close> (execute/Process.h is missing) is the
  supervisor's state machine NotSpawned, Spawned, Terminating, Exited; \<open>terminate\<close> moves a
  spawned process to Terminating and a successful wait leaves it Exited.
\<close>

datatype ProcessState = NotSpawned | Spawned | Terminating | Exited

record Computation =
  comp_id :: UUID
  comp_name :: string
  mProcessState :: ProcessState
  mSentGo :: bool
  mTerminationExpected :: bool

definition Process_terminate :: "ProcessState \<Rightarrow> ProcessState" where
  "Process_terminate ps = (if ps = Spawned then Terminating else ps)"

definition shutdown :: "Computation \<Rightarrow> Computation" where
  "shutdown c = c\<lparr>mTerminationExpected := True, mProcessState := Process_terminate (mProcessState c)\<rparr>"

text \<open>
  \<^verbatim>\<open>Computation::signal\<close>; \<open>autoSuspend\<close> is \<^verbatim>\<open>mSession.isAutoSuspend()\<close> and
  \<open>sessionId\<close> the owning session's id.
\<close>

definition Computation_signal ::
    "bool \<Rightarrow> UUID \<Rightarrow> SignalData \<Rightarrow> Computation \<Rightarrow> Computation \<times> Effect list" where
  "Computation_signal autoSuspend sessionId signalData c =
     (let status = (case sig_status signalData of Some s \<Rightarrow> s | None \<Rightarrow> [])
      in if status = ''run'' \<and> mProcessState c = Spawned
         then if mSentGo c
              then (c, [Send (ControlMessage (comp_id c) sessionId ''update'' (Some signalData))])
              else (c\<lparr>mSentGo := True\<rparr>,
                    Send (ControlMessage (comp_id c) sessionId ''go'' (Some signalData))
                    # (if autoSuspend then [Kill_SIGSTOP (comp_id c)] else []))
         else (c, []))"

text \<open>The signals a computation receives one after the other, with what each produced.\<close>

fun signals ::
    "bool \<Rightarrow> UUID \<Rightarrow> SignalData list \<Rightarrow> Computation \<Rightarrow> Computation \<times> Effect list list" where
  "signals autoSuspend sessionId [] c = (c, [])"
| "signals autoSuspend sessionId (d # ds) c =
     (let (c1, out) = Computation_signal autoSuspend sessionId d c;
          (c2, outs) = signals autoSuspend sessionId ds c1
      in (c2, out # outs))"

subsection \<open>Session configuration\<close>

text \<open>
  What the \<^verbatim>\<open>SessionConfig\<close> constructor reads from a definition object: the session id,
  the node id it was built for, the computations placed on this node (id to name, a
  \<^verbatim>\<open>std::map\<close>), whether this node is the entry node, and the log level (-1: not set).
\<close>

record SessionConfig =
  sessionId :: UUID
  nodeId :: UUID
  getComputations :: "(UUID \<times> string) list"
  isThisEntryNode :: bool
  logLevel :: int

text \<open>
  A definition object as the constructor sees it: it throws \<^verbatim>\<open>std::runtime_error\<close> on
  a missing piece, or yields the configuration for the node id it is given (whose
  \<open>nodeId\<close> is that node id).
\<close>

datatype Definition = Malformed string | WellFormed "UUID \<Rightarrow> SessionConfig"

subsection \<open>Session\<close>

datatype SessionState = Free | Busy | Defunct

text \<open>The procedure running in \<^verbatim>\<open>mOperationThread\<close>.\<close>

datatype Operation = UpdateProc SessionConfig | DeleteProc string

record Session =
  mId :: UUID
  mNodeId :: UUID
  mLogLevel :: int
  mState :: SessionState
  mDeleteReason :: string
  mShuttingDown :: bool
  mOperationThread :: "Operation option"
  mComputations :: "(UUID \<times> Computation) list"
  mExpirationSet :: bool

definition new_Session :: "UUID \<Rightarrow> UUID \<Rightarrow> Session" where
  "new_Session aSessionId aNodeId =
     \<lparr>mId = aSessionId, mNodeId = aNodeId, mLogLevel = 3, mState = Free,
      mDeleteReason = ''Not Deleted'', mShuttingDown = False, mOperationThread = None,
      mComputations = [], mExpirationSet = False\<rparr>"

definition checkIsFree :: "Session \<Rightarrow> Error option" where
  "checkIsFree s =
     (if mState s = Busy then Some (SessionError ''Session is busy'' HTTP_RESOURCE_CONFLICT)
      else if mState s = Defunct then Some (SessionError ''Session is defunct'' HTTP_RESOURCE_CONFLICT)
      else None)"

fun signalAll ::
    "bool \<Rightarrow> UUID \<Rightarrow> SignalData \<Rightarrow> (UUID \<times> Computation) list
      \<Rightarrow> (UUID \<times> Computation) list \<times> Effect list" where
  "signalAll autoSuspend sid signalData [] = ([], [])"
| "signalAll autoSuspend sid signalData ((k, c) # m) =
     (let (c', out) = Computation_signal autoSuspend sid signalData c;
          (m', outs) = signalAll autoSuspend sid signalData m
      in ((k, c') # m', out @ outs))"

definition Session_signal :: "bool \<Rightarrow> SignalData \<Rightarrow> Session \<Rightarrow> Error + (Session \<times> Effect list)" where
  "Session_signal autoSuspend signalData s =
     (case checkIsFree s of
        Some err \<Rightarrow> Inl err
      | None \<Rightarrow>
          (let status = (case sig_status signalData of Some st \<Rightarrow> st | None \<Rightarrow> [])
           in if status = ''run''
              then (let (m', outs) = signalAll autoSuspend (mId s) signalData (mComputations s)
                    in Inr (s\<lparr>mComputations := m'\<rparr>,
                            outs @ (if sig_routing signalData \<noteq> None
                                    then [Send (SessionRoutingDataMessage Update (mId s))]
                                    else [])))
              else if status = ''engineReady''
              then Inr (s, [Send (EngineReadyMessage (mId s))])
              else Inr (s, [])))"

definition asyncUpdateConfig :: "SessionConfig \<Rightarrow> Session \<Rightarrow> Error + Session" where
  "asyncUpdateConfig newConfig s =
     (if mId s \<noteq> sessionId newConfig
      then Inl (SessionError ''Config session id did not match session object.'' 500)
      else if mNodeId s \<noteq> nodeId newConfig
      then Inl (SessionError ''Config node id did not match session object.'' 500)
      else if mShuttingDown s then Inl (SessionError ''Session is shutting down'' 500)
      else if mState s = Busy
      then Inl (SessionError ''Session is busy and cannot be modified'' HTTP_RESOURCE_CONFLICT)
      else if mState s = Defunct
      then Inl (SessionError ''Session is defunct and cannot be modified'' HTTP_RESOURCE_CONFLICT)
      else Inr (s\<lparr>mState := Busy, mOperationThread := Some (UpdateProc newConfig)\<rparr>))"

definition asyncDelete :: "string \<Rightarrow> Session \<Rightarrow> Error + Session" where
  "asyncDelete reason s =
     (if mShuttingDown s then Inl (SessionError ''Session is shutting down'' 500)
      else if mState s = Busy
      then Inl (SessionError ''Session is busy and cannot be deleted'' HTTP_RESOURCE_CONFLICT)
      else if mState s = Defunct
      then Inl (SessionError ''Session is defunct and cannot be deleted'' HTTP_RESOURCE_CONFLICT)
      else Inr (s\<lparr>mState := Busy, mOperationThread := Some (DeleteProc reason)\<rparr>))"

text \<open>
  How the child processes behave during an operation: whether
  \<^verbatim>\<open>waitUntilShutdown(endtime)\<close> sees the computation exit before the deadline, and the
  error with which \<^verbatim>\<open>startNewComputation\<close> throws for a computation (missing definition
  or context, packaging, config file, process creation, spawn), \<open>None\<close> when it starts.
\<close>

record ProcEnv =
  exitsInTime :: "UUID \<Rightarrow> bool"
  startFailure :: "UUID \<Rightarrow> Error option"

fun what :: "Error \<Rightarrow> string" where
  "what (SessionError d c) = d"
| "what (RuntimeError d) = d"

definition update_comp ::
    "UUID \<Rightarrow> (Computation \<Rightarrow> Computation) \<Rightarrow> (UUID \<times> Computation) list \<Rightarrow> (UUID \<times> Computation) list" where
  "update_comp k f m = map (\<lambda>(k', c). if k' = k then (k', f c) else (k', c)) m"

text \<open>
  \<^verbatim>\<open>Session::getConfigDelta\<close>. The defunct computations are shared pointers into
  \<^verbatim>\<open>mComputations\<close>; they are returned as their keys (a computation's key is its id).
\<close>

definition getConfigDelta ::
    "SessionConfig \<Rightarrow> (UUID \<times> Computation) list \<Rightarrow> UUID list \<times> (UUID \<times> string) list" where
  "getConfigDelta newConfig comps =
     (let configComps = getComputations newConfig;
          newComps = filter (\<lambda>(k, n). map_of comps k = None) configComps;
          defunctComps = map fst (filter (\<lambda>(k, c). map_of configComps k = None) comps)
      in (defunctComps, newComps))"

fun shutdownAll_comps :: "UUID list \<Rightarrow> (UUID \<times> Computation) list \<Rightarrow> (UUID \<times> Computation) list \<times> Effect list" where
  "shutdownAll_comps [] m = (m, [])"
| "shutdownAll_comps (k # ks) m =
     (let (m', ev) = shutdownAll_comps ks (update_comp k shutdown m) in (m', Terminate k # ev))"

text \<open>The wait loop of \<^verbatim>\<open>applyNewConfig\<close>: it throws at the first computation still running.\<close>

fun waitAll_or_throw ::
    "ProcEnv \<Rightarrow> UUID list \<Rightarrow> (UUID \<times> Computation) list
      \<Rightarrow> bool \<times> (UUID \<times> Computation) list \<times> Effect list" where
  "waitAll_or_throw env [] m = (True, m, [])"
| "waitAll_or_throw env (k # ks) m =
     (if exitsInTime env k
      then (let (ok, m', ev) =
                  waitAll_or_throw env ks (update_comp k (\<lambda>c. c\<lparr>mProcessState := Exited\<rparr>) m)
            in (ok, m', WaitUntilExit k True # ev))
      else (False, m, [WaitUntilExit k False]))"

text \<open>The wait loop of \<^verbatim>\<open>deleteProc\<close>: a computation still running is logged and skipped.\<close>

fun waitAll_logged ::
    "ProcEnv \<Rightarrow> UUID list \<Rightarrow> (UUID \<times> Computation) list \<Rightarrow> (UUID \<times> Computation) list \<times> Effect list" where
  "waitAll_logged env [] m = (m, [])"
| "waitAll_logged env (k # ks) m =
     (if exitsInTime env k
      then (let (m', ev) = waitAll_logged env ks (update_comp k (\<lambda>c. c\<lparr>mProcessState := Exited\<rparr>) m)
            in (m', WaitUntilExit k True # ev))
      else (let (m', ev) = waitAll_logged env ks m in (m', WaitUntilExit k False # ev)))"

definition startNewComputation ::
    "ProcEnv \<Rightarrow> UUID \<Rightarrow> string \<Rightarrow> (UUID \<times> Computation) list
      \<Rightarrow> Error option \<times> (UUID \<times> Computation) list \<times> Effect list" where
  "startNewComputation env compId compName m =
     (case startFailure env compId of
        Some err \<Rightarrow> (Some err, m, [])
      | None \<Rightarrow>
          (None,
           map_set m compId
             \<lparr>comp_id = compId, comp_name = compName, mProcessState = Spawned,
              mSentGo = False, mTerminationExpected = False\<rparr>,
           [Spawn compId]))"

fun startNewComputations ::
    "ProcEnv \<Rightarrow> (UUID \<times> string) list \<Rightarrow> (UUID \<times> Computation) list
      \<Rightarrow> Error option \<times> (UUID \<times> Computation) list \<times> Effect list" where
  "startNewComputations env [] m = (None, m, [])"
| "startNewComputations env ((compId, compName) # new) m =
     (case startNewComputation env compId compName m of
        (Some err, m', ev) \<Rightarrow> (Some err, m', ev)
      | (None, m', ev) \<Rightarrow>
          (let (r, m'', ev') = startNewComputations env new m' in (r, m'', ev @ ev')))"

text \<open>
  \<^verbatim>\<open>Session::applyNewConfig\<close>: the error it throws (if any), the session afterwards and
  what it did to the processes. \<open>defaultLogLevel\<close> is \<^verbatim>\<open>mComputationDefaults.logLevel\<close>.
\<close>

definition applyNewConfig ::
    "ProcEnv \<Rightarrow> int \<Rightarrow> SessionConfig \<Rightarrow> Session \<Rightarrow> Error option \<times> Session \<times> Effect list" where
  "applyNewConfig env defaultLogLevel newConfig s =
     (let s0 = s\<lparr>mLogLevel := (if logLevel newConfig \<ge> 0 then logLevel newConfig else defaultLogLevel)\<rparr>;
          (defunctComps, newComps) = getConfigDelta newConfig (mComputations s0);
          (m1, ev1) = shutdownAll_comps defunctComps (mComputations s0);
          (ok, m2, ev2) = waitAll_or_throw env defunctComps m1
      in if \<not> ok
         then (Some (SessionError ''Computations did not shutdown within timeout.'' 500),
               s0\<lparr>mComputations := m2\<rparr>, ev1 @ ev2)
         else (let (r, m3, ev3) = startNewComputations env newComps m2
               in (r, s0\<lparr>mComputations := m3\<rparr>, ev1 @ ev2 @ ev3)))"

text \<open>The two operation procedures; each returns the session as the thread leaves it.\<close>

definition updateProc :: "ProcEnv \<Rightarrow> int \<Rightarrow> SessionConfig \<Rightarrow> Session \<Rightarrow> Session \<times> Effect list" where
  "updateProc env defaultLogLevel newConfig s =
     (let (r, s1, ev) = applyNewConfig env defaultLogLevel newConfig s;
          failed = (case r of
                      Some err \<Rightarrow> [Event (mId s) ''sessionOperationFailed'' (what err)]
                    | None \<Rightarrow> [])
      in (s1\<lparr>mState := (if mState s1 = Busy then Free else mState s1), mOperationThread := None\<rparr>,
          ev @ failed))"

definition shutdownSession :: "UUID \<Rightarrow> string \<Rightarrow> Effect list" where
  "shutdownSession sid reason =
     [Send (ClientConnectionStatus sid reason), Send (SessionRoutingDataMessage Delete sid)]"

definition deleteProc :: "ProcEnv \<Rightarrow> string \<Rightarrow> Session \<Rightarrow> Session \<times> Effect list" where
  "deleteProc env reason s =
     (let ks = map fst (mComputations s);
          (m1, ev1) = shutdownAll_comps ks (mComputations s);
          (m2, ev2) = waitAll_logged env ks m1
      in (s\<lparr>mComputations := m2, mState := Defunct, mDeleteReason := reason,
            mOperationThread := None\<rparr>,
          ev1 @ ev2 @ shutdownSession (mId s) reason))"

definition runOperation :: "ProcEnv \<Rightarrow> int \<Rightarrow> Session \<Rightarrow> Session \<times> Effect list" where
  "runOperation env defaultLogLevel s =
     (case mOperationThread s of
        None \<Rightarrow> (s, [])
      | Some (UpdateProc newConfig) \<Rightarrow> updateProc env defaultLogLevel newConfig s
      | Some (DeleteProc reason) \<Rightarrow> deleteProc env reason s)"


subsection \<open>Controller and session manager\<close>

record ArrasController =
  mRouterHasRoutingData :: "UUID \<Rightarrow> bool"

text \<open>The bound of the wait for the router's acknowledgement, in milliseconds.\<close>

definition WAIT_FOR_ROUTER_HAS_ROUTING :: nat where
  "WAIT_FOR_ROUTER_HAS_ROUTING = 10000"

text \<open>\<^verbatim>\<open>ArrasController::handleMessage\<close> on a routing data message from the router.\<close>

definition handleMessage_SessionRoutingData ::
    "SessionRoutingAction \<Rightarrow> UUID \<Rightarrow> ArrasController \<Rightarrow> ArrasController" where
  "handleMessage_SessionRoutingData action sid ctl =
     (if action = Acknowledge
      then ctl\<lparr>mRouterHasRoutingData := (mRouterHasRoutingData ctl)(sid := True)\<rparr>
      else ctl)"

text \<open>
  \<^verbatim>\<open>ArrasController::initializeSession\<close>. \<open>ack\<close> is the time in milliseconds after which
  the router's Acknowledge for this session reaches \<^verbatim>\<open>handleMessage\<close>, \<open>None\<close> when it
  never does. The result is the return value, the time spent waiting, the controller and
  what was sent.
\<close>

definition initializeSession ::
    "ArrasController \<Rightarrow> SessionConfig \<Rightarrow> nat option
      \<Rightarrow> bool \<times> nat \<times> ArrasController \<times> Effect list" where
  "initializeSession ctl config ack =
     (let sent = [Send (SessionRoutingDataMessage Initialize (sessionId config))]
      in if mRouterHasRoutingData ctl (sessionId config) then (True, 0, ctl, sent)
         else (case ack of
                 None \<Rightarrow> (False, WAIT_FOR_ROUTER_HAS_ROUTING, ctl, sent)
               | Some t \<Rightarrow>
                   if t < WAIT_FOR_ROUTER_HAS_ROUTING
                   then (True, t,
                         handleMessage_SessionRoutingData Acknowledge (sessionId config) ctl, sent)
                   else (False, WAIT_FOR_ROUTER_HAS_ROUTING, ctl, sent)))"

record ArrasSessions =
  mNodeId_sessions :: UUID
  mClosed :: bool
  mSessions :: "UUID \<rightharpoonup> Session"
  mController :: ArrasController

text \<open>
  \<^verbatim>\<open>ArrasSessions::createSession\<close>: the error thrown or the response returned (the
  configuration's response object, here the configuration), the manager afterwards, the
  time spent waiting for the router and what was sent.
\<close>

definition createSession ::
    "ArrasSessions \<Rightarrow> Definition \<Rightarrow> nat option
      \<Rightarrow> (Error + SessionConfig) \<times> ArrasSessions \<times> nat \<times> Effect list" where
  "createSession ss definition ack =
     (if mClosed ss
      then (Inl (SessionError ''Node is closed : cannot accept new sessions'' HTTP_RESOURCE_CONFLICT),
            ss, 0, [])
      else
        (case definition of
           Malformed msg \<Rightarrow> (Inl (RuntimeError msg), ss, 0, [])
         | WellFormed mk \<Rightarrow>
             (let config = (mk (mNodeId_sessions ss))\<lparr>nodeId := mNodeId_sessions ss\<rparr>;
                  sid = sessionId config
              in if mSessions ss sid \<noteq> None
                 then (Inl (SessionError ''Session already exists'' HTTP_RESOURCE_CONFLICT), ss, 0, [])
                 else
                   (let session = new_Session sid (mNodeId_sessions ss);
                        ss1 = ss\<lparr>mSessions := (mSessions ss)(sid \<mapsto> session)\<rparr>;
                        (ok, waited, ctl, sent) = initializeSession (mController ss1) config ack;
                        ss2 = ss1\<lparr>mController := ctl\<rparr>
                    in if \<not> ok
                       then (Inl (SessionError ''Failed to initialize session with node router''
                                    HTTP_INTERNAL_SERVER_ERROR),
                             ss2\<lparr>mSessions := (mSessions ss2)(sid := None)\<rparr>, waited, sent)
                       else
                         (let session1 = (if isThisEntryNode config
                                          then session\<lparr>mExpirationSet := True\<rparr> else session)
                          in case asyncUpdateConfig config session1 of
                               Inl err \<Rightarrow>
                                 (Inl err, ss2\<lparr>mSessions := (mSessions ss2)(sid := None)\<rparr>,
                                  waited, sent)
                             | Inr session2 \<Rightarrow>
                                 (Inr config, ss2\<lparr>mSessions := (mSessions ss2)(sid \<mapsto> session2)\<rparr>,
                                  waited, sent))))))"

definition modifySession :: "ArrasSessions \<Rightarrow> Definition \<Rightarrow> (Error + SessionConfig) \<times> ArrasSessions" where
  "modifySession ss definition =
     (if mClosed ss
      then (Inl (SessionError ''Node is closed : cannot modify sessions'' HTTP_RESOURCE_CONFLICT), ss)
      else
        (case definition of
           Malformed msg \<Rightarrow> (Inl (RuntimeError msg), ss)
         | WellFormed mk \<Rightarrow>
             (let config = (mk (mNodeId_sessions ss))\<lparr>nodeId := mNodeId_sessions ss\<rparr>;
                  sid = sessionId config
              in case mSessions ss sid of
                   None \<Rightarrow> (Inl (SessionError ''Session doesn't exist'' HTTP_NOT_FOUND), ss)
                 | Some session \<Rightarrow>
                     (case asyncUpdateConfig config session of
                        Inl err \<Rightarrow> (Inl err, ss)
                      | Inr session' \<Rightarrow>
                          (Inr config, ss\<lparr>mSessions := (mSessions ss)(sid \<mapsto> session')\<rparr>)))))"

definition deleteSession :: "ArrasSessions \<Rightarrow> UUID \<Rightarrow> string \<Rightarrow> Error option \<times> ArrasSessions" where
  "deleteSession ss sid reason =
     (case mSessions ss sid of
        None \<Rightarrow> (Some (SessionError ''Session doesn't exist'' HTTP_NOT_FOUND), ss)
      | Some session \<Rightarrow>
          (case asyncDelete reason session of
             Inl err \<Rightarrow> (Some err, ss)
           | Inr session' \<Rightarrow> (None, ss\<lparr>mSessions := (mSessions ss)(sid \<mapsto> session')\<rparr>)))"

text \<open>The operation thread of session \<open>sid\<close> runs to its end.\<close>

definition operationCompletes :: "ProcEnv \<Rightarrow> int \<Rightarrow> UUID \<Rightarrow> ArrasSessions \<Rightarrow> ArrasSessions" where
  "operationCompletes env defaultLogLevel sid ss =
     (case mSessions ss sid of
        None \<Rightarrow> ss
      | Some session \<Rightarrow>
          ss\<lparr>mSessions := (mSessions ss)(sid \<mapsto> fst (runOperation env defaultLogLevel session))\<rparr>)"



text \<open>Child processes that exit when asked and start when spawned.\<close>

definition env_ok :: ProcEnv where
  "env_ok = \<lparr>exitsInTime = (\<lambda>k. True), startFailure = (\<lambda>k. None)\<rparr>"


text \<open>
  A session definition that places one computation, \<open>renderer\<close>, on the node it is read
  for, and a session manager that holds no session yet.
\<close>

definition definition_renderer :: Definition where
  "definition_renderer =
     WellFormed (\<lambda>n. \<lparr>sessionId = 7, nodeId = n, getComputations = [(3, ''renderer'')],
                       isThisEntryNode = True, logLevel = - 1\<rparr>)"

definition ArrasSessions_init :: "UUID \<Rightarrow> ArrasSessions" where
  "ArrasSessions_init n =
     \<lparr>mNodeId_sessions = n, mClosed = False, mSessions = Map.empty,
      mController = \<lparr>mRouterHasRoutingData = (\<lambda>sid. False)\<rparr>\<rparr>"

section \<open>Router (PeerManager.cc, RemoteEndpoint.cc, RouteMessage.cc, NodeRouter.cc)\<close>

subsection \<open>Envelopes and endpoints\<close>

text \<open>
  \<^verbatim>\<open>api::Address\<close> and \<^verbatim>\<open>impl::Envelope\<close> are declared outside the repository. An
  address is its three ids; the router reads of an envelope only its destination list,
  the rest is the opaque \<open>content\<close>.
\<close>

record Address =
  session :: UUID
  node :: UUID
  computation :: UUID

record Envelope =
  envelope_to :: "Address list"
  content :: string

datatype PeerType = PEER_NONE | PEER_CLIENT | PEER_NODE | PEER_IPC | PEER_LISTENER | PEER_SERVICE

text \<open>
  A \<^verbatim>\<open>network::Peer\<close> is one accepted or dialed socket; \<open>dialedBy\<close> is the id of the node
  that opened the connection (for a node-to-node socket: the node whose registration
  arrives on it).
\<close>

record Peer =
  peerNo :: nat
  dialedBy :: UUID

record NodeInfo =
  info_nodeId :: UUID
  hostname :: string
  ip :: string
  port :: nat

text \<open>
  A \<^verbatim>\<open>RemoteEndpoint\<close>: \<open>mNodeInfo\<close> is set by the factory for NODE connections, whose
  send thread dials that host before it sends; \<open>mHasRoutingData\<close> says that
  \<^verbatim>\<open>mRoutingData\<close> is not null; \<open>mReceiveThread\<close> that the constructor started a receive
  thread. The send queue (\<^verbatim>\<open>impl::MessageQueue\<close>, outside the repository) is the list of
  queued envelopes with its shut-down flag: a push after shutdown throws, and
  \<^verbatim>\<open>queueEnvelope\<close> swallows that.
\<close>

record RemoteEndpoint =
  mPeerType :: PeerType
  mUUID :: UUID
  mSessionId :: UUID
  mPeer :: "Peer option"
  mNodeInfo :: "NodeInfo option"
  mHasRoutingData :: bool
  mReceiveThread :: bool
  mMessageQueue :: "Envelope list"
  mQueueShutdown :: bool
  mFlaggedForDestruction :: bool

definition queueEnvelope :: "Envelope \<Rightarrow> RemoteEndpoint \<Rightarrow> RemoteEndpoint" where
  "queueEnvelope anEnvelope ep =
     (if mQueueShutdown ep then ep
      else ep\<lparr>mMessageQueue := mMessageQueue ep @ [anEnvelope]\<rparr>)"


text \<open>
  The constructor taking an accepted socket. A valid (non-null) session id must have
  routing data, or the constructor throws; \<open>hasRouting\<close> says whether the routing table
  holds data for the session id.
\<close>

definition new_RemoteEndpoint ::
    "Peer \<Rightarrow> PeerType \<Rightarrow> UUID \<Rightarrow> UUID \<Rightarrow> bool \<Rightarrow> RemoteEndpoint option" where
  "new_RemoteEndpoint aPeer aType aUuid aSessionId hasRouting =
     (if aSessionId \<noteq> UUID_null \<and> \<not> hasRouting then None
      else
        (let routing = (aSessionId \<noteq> UUID_null)
         in Some \<lparr>mPeerType = aType, mUUID = aUuid, mSessionId = aSessionId, mPeer = Some aPeer,
                  mNodeInfo = None, mHasRoutingData = routing,
                  mReceiveThread = (routing \<or> aType = PEER_NODE \<or> aType = PEER_SERVICE),
                  mMessageQueue = [], mQueueShutdown = False, mFlaggedForDestruction = False\<rparr>))"

definition createNodeRemoteEndpoint :: "UUID \<Rightarrow> NodeInfo \<Rightarrow> RemoteEndpoint" where
  "createNodeRemoteEndpoint aUUID aNodeInfo =
     \<lparr>mPeerType = PEER_NODE, mUUID = aUUID, mSessionId = UUID_null, mPeer = None,
      mNodeInfo = Some aNodeInfo, mHasRoutingData = False, mReceiveThread = True,
      mMessageQueue = [], mQueueShutdown = False, mFlaggedForDestruction = False\<rparr>"

definition setPeer :: "Peer \<Rightarrow> RemoteEndpoint \<Rightarrow> RemoteEndpoint" where
  "setPeer aPeer ep = (if mPeerType ep = PEER_NODE then ep\<lparr>mPeer := Some aPeer\<rparr> else ep)"

text \<open>
  The start of \<^verbatim>\<open>sendThreadWithConnect\<close> of a node endpoint made by the factory on node
  \<open>local\<close>: it dials the remote node with a socket of its own, and keeps that socket only
  when the remote id is the lesser one; otherwise it waits for the remote node to connect
  back.
\<close>

definition sendThreadWithConnect :: "UUID \<Rightarrow> nat \<Rightarrow> RemoteEndpoint \<Rightarrow> RemoteEndpoint" where
  "sendThreadWithConnect local no ep =
     (if mPeerType ep = PEER_NODE \<and> mUUID ep < local
      then ep\<lparr>mPeer := Some \<lparr>peerNo = no, dialedBy = local\<rparr>\<rparr>
      else ep)"

subsection \<open>Peer registry\<close>

record PeerManager =
  mClients :: "UUID \<rightharpoonup> RemoteEndpoint"
  mNodes :: "UUID \<rightharpoonup> RemoteEndpoint"
  mIpc :: "UUID \<rightharpoonup> RemoteEndpoint"
  mPendingEnvelopes :: "UUID \<rightharpoonup> Envelope list"

text \<open>
  Each registry operation runs under \<^verbatim>\<open>mMutex\<close> from its first to its last statement, so
  it is one atomic step on the registry. \<^verbatim>\<open>mPendingEnvelopes[aId]\<close> enters an empty
  list for an id that has none.
\<close>

definition pending :: "PeerManager \<Rightarrow> UUID \<Rightarrow> Envelope list" where
  "pending pm aId = (case mPendingEnvelopes pm aId of None \<Rightarrow> [] | Some msgs \<Rightarrow> msgs)"

definition trackClient :: "UUID \<Rightarrow> RemoteEndpoint \<Rightarrow> PeerManager \<Rightarrow> PeerManager" where
  "trackClient aId aPeer pm =
     (let msgs = pending pm aId
      in pm\<lparr>mClients := (mClients pm)(aId \<mapsto> fold queueEnvelope msgs aPeer),
            mPendingEnvelopes := (mPendingEnvelopes pm)(aId \<mapsto> msgs)\<rparr>)"

definition trackNode :: "UUID \<Rightarrow> RemoteEndpoint \<Rightarrow> PeerManager \<Rightarrow> PeerManager" where
  "trackNode aId aPeer pm = pm\<lparr>mNodes := (mNodes pm)(aId \<mapsto> aPeer)\<rparr>"

definition trackIpc :: "UUID \<Rightarrow> RemoteEndpoint \<Rightarrow> PeerManager \<Rightarrow> PeerManager" where
  "trackIpc aId aPeer pm = pm\<lparr>mIpc := (mIpc pm)(aId \<mapsto> aPeer)\<rparr>"

definition stashEnvelope :: "UUID \<Rightarrow> Envelope \<Rightarrow> PeerManager \<Rightarrow> PeerManager" where
  "stashEnvelope aSessionId anEnvelope pm =
     (case mClients pm aSessionId of
        Some ep \<Rightarrow> pm\<lparr>mClients := (mClients pm)(aSessionId \<mapsto> queueEnvelope anEnvelope ep)\<rparr>
      | None \<Rightarrow>
          pm\<lparr>mPendingEnvelopes :=
               (mPendingEnvelopes pm)(aSessionId \<mapsto> pending pm aSessionId @ [anEnvelope])\<rparr>)"


definition PeerManager_init :: PeerManager where
  "PeerManager_init =
     \<lparr>mClients = Map.empty, mNodes = Map.empty, mIpc = Map.empty, mPendingEnvelopes = Map.empty\<rparr>"

subsection \<open>Session routing data\<close>

record SessionNodeMap =
  mEntryNodeId :: UUID
  mMap :: "UUID \<rightharpoonup> NodeInfo"

text \<open>\<open>mClientAddresser\<close> says that the addresser pointer is not null.\<close>

record SessionRoutingData =
  rd_sessionId :: UUID
  rd_nodeId :: UUID
  nodeMap :: SessionNodeMap
  mClientAddresser :: bool



datatype RouterError = KeyError UUID | DuplicateClient UUID | MissingRoutingData UUID


definition findNodeInfo :: "SessionNodeMap \<Rightarrow> UUID \<Rightarrow> NodeInfo option" where
  "findNodeInfo nm aNodeId = mMap nm aNodeId"

text \<open>
  \<^verbatim>\<open>RoutingTable\<close>: the sessions whose routing data is alive, in session id order.
  \<^verbatim>\<open>RoutingTable::findNodeInfo\<close> digs through them and takes the first entry found.
\<close>

type_synonym RoutingTable = "(UUID \<times> SessionRoutingData) list"

fun RoutingTable_findNodeInfo :: "RoutingTable \<Rightarrow> UUID \<Rightarrow> NodeInfo option" where
  "RoutingTable_findNodeInfo [] aNodeId = None"
| "RoutingTable_findNodeInfo ((sid, rd) # rt) aNodeId =
     (case findNodeInfo (nodeMap rd) aNodeId of
        Some i \<Rightarrow> Some i
      | None \<Rightarrow> RoutingTable_findNodeInfo rt aNodeId)"

subsection \<open>Routing an envelope\<close>




datatype Log = Log_computationNotFound UUID | Log_BadNodeConnection UUID











subsection \<open>New connections (the connect filters of \<^verbatim>\<open>NodeRouter::threadProc\<close>)\<close>

datatype RegistrationType =
  REGISTRATION_CLIENT | REGISTRATION_NODE | REGISTRATION_EXECUTOR | REGISTRATION_CONTROL

text \<open>The registration record, once read with the right magic number and major version.\<close>

record RegistrationData =
  mType :: RegistrationType
  reg_mNodeId :: UUID
  reg_mSessionId :: UUID
  reg_mComputationId :: UUID

datatype Notify = ClientConnected UUID | ClientDisconnected UUID string

record ThreadedNodeRouter =
  router_mNodeId :: UUID
  mPeerManager :: PeerManager
  mRoutingTable :: RoutingTable
  notifyService :: "Notify list"

text \<open>
  What a connect filter does with the new socket. \<open>NotForThisFilter\<close>: it returns null and
  leaves the socket alone; \<^verbatim>\<open>ListenServer::poll\<close> tries the next filter and shuts the
  socket down when none takes it. \<open>PeerAdopted\<close>: it returns an endpoint that now uses the
  socket. \<open>PeerDropped\<close>: it returns an endpoint but deletes the socket. \<open>PeerRejected\<close>: it
  throws; \<^verbatim>\<open>ListenServer::poll\<close> logs the error and shuts the socket down.
\<close>

datatype Outcome = NotForThisFilter | PeerAdopted | PeerDropped | PeerRejected RouterError



text \<open>The node filter, run under \<^verbatim>\<open>mNodeConnectionMutex\<close>.\<close>

definition nodeConnectFilter ::
    "ThreadedNodeRouter \<Rightarrow> RegistrationData \<Rightarrow> Peer \<Rightarrow> Outcome \<times> ThreadedNodeRouter \<times> Log list" where
  "nodeConnectFilter router reg aPeer =
     (if mType reg = REGISTRATION_NODE
      then
        (case mNodes (mPeerManager router) (reg_mNodeId reg) of
           None \<Rightarrow>
             if reg_mNodeId reg < router_mNodeId router
             then
               (case RoutingTable_findNodeInfo (mRoutingTable router) (reg_mNodeId reg) of
                  Some nodeInfo \<Rightarrow>
                    (PeerDropped,
                     router\<lparr>mPeerManager :=
                              trackNode (reg_mNodeId reg)
                                (createNodeRemoteEndpoint (reg_mNodeId reg) nodeInfo)
                                (mPeerManager router)\<rparr>,
                     [])
                | None \<Rightarrow> (NotForThisFilter, router, [Log_BadNodeConnection (reg_mNodeId reg)]))
             else
               (case new_RemoteEndpoint aPeer PEER_NODE (reg_mNodeId reg) UUID_null False of
                  None \<Rightarrow> (PeerRejected (MissingRoutingData UUID_null), router, [])
                | Some ep \<Rightarrow>
                    (PeerAdopted,
                     router\<lparr>mPeerManager := trackNode (reg_mNodeId reg) ep (mPeerManager router)\<rparr>,
                     []))
         | Some ep \<Rightarrow>
             if reg_mNodeId reg < router_mNodeId router
             then (PeerDropped, router, [])
             else
               (PeerAdopted,
                router\<lparr>mPeerManager :=
                         (mPeerManager router)
                           \<lparr>mNodes := (mNodes (mPeerManager router))
                                         (reg_mNodeId reg \<mapsto> setPeer aPeer ep)\<rparr>\<rparr>,
                []))
      else (NotForThisFilter, router, []))"


text \<open>
  Every node peer of the registry is a NODE endpoint filed under its own node id, and a
  socket it uses was opened by the greater of the two node ids.
\<close>

definition greaterInitiates :: "UUID \<Rightarrow> (UUID \<rightharpoonup> RemoteEndpoint) \<Rightarrow> bool" where
  "greaterInitiates local nodes =
     (\<forall>n ep. nodes n = Some ep \<longrightarrow>
        mUUID ep = n \<and> mPeerType ep = PEER_NODE \<and>
        (\<forall>p. mPeer ep = Some p \<longrightarrow> dialedBy p = max local n))"

definition ThreadedNodeRouter_init :: "UUID \<Rightarrow> ThreadedNodeRouter" where
  "ThreadedNodeRouter_init aNodeId =
     \<lparr>router_mNodeId = aNodeId, mPeerManager = PeerManager_init, mRoutingTable = [],
      notifyService = []\<rparr>"

text \<open>A routing table whose one session (7, on node 9) names node 4.\<close>

definition routingTable_with_node_4 :: RoutingTable where
  "routingTable_with_node_4 =
     [(7, \<lparr>rd_sessionId = 7, rd_nodeId = 9,
           nodeMap = \<lparr>mEntryNodeId = 9,
                      mMap = [4 \<mapsto> \<lparr>info_nodeId = 4, hostname = ''h4'', ip = ''10.0.0.4'', port = 8087\<rparr>]\<rparr>,
           mClientAddresser = True\<rparr>)]"


section \<open>Properties of the HTTP ban list\<close>








section \<open>Properties of the session state machine\<close>

lemma applyNewConfig_mState: "mState (fst (snd (applyNewConfig env dl cfg s))) = mState s"
  by (simp add: applyNewConfig_def Let_def split: prod.splits)

lemma updateProc_mState:
  "mState (fst (updateProc env dl cfg s)) = (if mState s = Busy then Free else mState s)"
  using applyNewConfig_mState [of env dl cfg s]
  by (cases "applyNewConfig env dl cfg s") (auto simp add: updateProc_def)

lemma deleteProc_mState: "mState (fst (deleteProc env reason s)) = Defunct"
  by (simp add: deleteProc_def Let_def split: prod.splits)

lemma deleteProc_mShuttingDown: "mShuttingDown (fst (deleteProc env reason s)) = mShuttingDown s"
  by (simp add: deleteProc_def Let_def split: prod.splits)


lemma runOperation_not_Busy:
  "mOperationThread s \<noteq> None \<Longrightarrow> mState (fst (runOperation env dl s)) \<noteq> Busy"
  by (auto simp add: runOperation_def updateProc_mState deleteProc_mState
      split: option.splits Operation.splits)


lemma Session_signal_mState:
  "Session_signal au d s = Inr (s', out) \<Longrightarrow> mState s' = mState s"
  by (auto simp add: Session_signal_def Let_def split: option.splits if_splits prod.splits)






section \<open>Properties of the run signal\<close>

lemma signals_after_go:
  assumes "mProcessState c = Spawned" "mSentGo c"
    and "\<forall>d \<in> set ds. sig_status d = Some ''run''"
  shows "signals au sid ds c =
           (c, map (\<lambda>d. [Send (ControlMessage (comp_id c) sid ''update'' (Some d))]) ds)"
  using assms by (induction ds) (simp_all add: Computation_signal_def)

text \<open>
  C9. A computation in the Spawned state that has not been sent "go" answers its first
  "run" signal with a \<open>go\<close> control message carrying the signal's data and sets its
  sent-go flag (with auto-suspend it is then stopped by SIGSTOP); every later "run" signal
  is delivered as an \<open>update\<close> control message carrying that signal's data, and leaves
  the computation as it was: repeating a "run" signal changes nothing more.
\<close>

theorem first_run_is_go_later_runs_are_update:
  assumes "mProcessState c = Spawned" "\<not> mSentGo c"
    and "sig_status d = Some ''run''"
    and "\<forall>d' \<in> set ds. sig_status d' = Some ''run''"
  shows "signals au sid (d # ds) c =
           (c\<lparr>mSentGo := True\<rparr>,
            (Send (ControlMessage (comp_id c) sid ''go'' (Some d))
               # (if au then [Kill_SIGSTOP (comp_id c)] else []))
            # map (\<lambda>d'. [Send (ControlMessage (comp_id c) sid ''update'' (Some d'))]) ds)"
proof -
  have first: "Computation_signal au sid d c =
      (c\<lparr>mSentGo := True\<rparr>,
       Send (ControlMessage (comp_id c) sid ''go'' (Some d))
         # (if au then [Kill_SIGSTOP (comp_id c)] else []))"
    using assms(1-3) by (simp add: Computation_signal_def)
  have rest: "signals au sid ds (c\<lparr>mSentGo := True\<rparr>) =
      (c\<lparr>mSentGo := True\<rparr>,
       map (\<lambda>d'. [Send (ControlMessage (comp_id c) sid ''update'' (Some d'))]) ds)"
    using signals_after_go [of "c\<lparr>mSentGo := True\<rparr>" ds au sid] assms(1,4) by simp
  show ?thesis using first rest by simp
qed

theorem first_run_is_go_later_runs_are_update_witness:
  "signals False 7
      [\<lparr>sig_status = Some ''run'', sig_routing = Some ''rules''\<rparr>,
       \<lparr>sig_status = Some ''run'', sig_routing = Some ''rules''\<rparr>]
      \<lparr>comp_id = 9, comp_name = ''renderer'', mProcessState = Spawned, mSentGo = False,
       mTerminationExpected = False\<rparr>
   = (\<lparr>comp_id = 9, comp_name = ''renderer'', mProcessState = Spawned, mSentGo = True,
       mTerminationExpected = False\<rparr>,
      [[Send (ControlMessage 9 7 ''go'' (Some \<lparr>sig_status = Some ''run'', sig_routing = Some ''rules''\<rparr>))],
       [Send (ControlMessage 9 7 ''update'' (Some \<lparr>sig_status = Some ''run'', sig_routing = Some ''rules''\<rparr>))]])"
  using first_run_is_go_later_runs_are_update
    [where c = "\<lparr>comp_id = 9, comp_name = ''renderer'', mProcessState = Spawned, mSentGo = False,
                   mTerminationExpected = False\<rparr>"
       and d = "\<lparr>sig_status = Some ''run'', sig_routing = Some ''rules''\<rparr>"
       and ds = "[\<lparr>sig_status = Some ''run'', sig_routing = Some ''rules''\<rparr>]"
       and au = False and sid = 7]
  by simp

section \<open>Properties of session modification\<close>



















section \<open>Properties of session creation and deletion\<close>

lemma initializeSession_cases:
  "initializeSession ctl config ack =
     (if mRouterHasRoutingData ctl (sessionId config) \<or>
         (\<exists>t. ack = Some t \<and> t < WAIT_FOR_ROUTER_HAS_ROUTING)
      then (True,
            (if mRouterHasRoutingData ctl (sessionId config) then 0 else the ack),
            (if mRouterHasRoutingData ctl (sessionId config) then ctl
             else ctl\<lparr>mRouterHasRoutingData := (mRouterHasRoutingData ctl)(sessionId config := True)\<rparr>),
            [Send (SessionRoutingDataMessage Initialize (sessionId config))])
      else (False, WAIT_FOR_ROUTER_HAS_ROUTING, ctl,
            [Send (SessionRoutingDataMessage Initialize (sessionId config))]))"
  by (auto simp add: initializeSession_def Let_def handleMessage_SessionRoutingData_def
      split: option.splits)

lemma asyncUpdateConfig_new_Session:
  "sessionId config = sid \<Longrightarrow> nodeId config = n \<Longrightarrow>
   mId s = sid \<Longrightarrow> mNodeId s = n \<Longrightarrow> \<not> mShuttingDown s \<Longrightarrow> mState s = Free \<Longrightarrow>
     asyncUpdateConfig config s =
       Inr (s\<lparr>mState := Busy, mOperationThread := Some (UpdateProc config)\<rparr>)"
  by (simp add: asyncUpdateConfig_def)



lemma applyNewConfig_fields:
  "mShuttingDown (fst (snd (applyNewConfig env dl cfg s))) = mShuttingDown s"
  by (simp add: applyNewConfig_def Let_def split: prod.splits)

lemma runOperation_Busy_update:
  "mState s = Busy \<Longrightarrow> mOperationThread s = Some (UpdateProc cfg) \<Longrightarrow>
     mState (fst (runOperation env dl s)) = Free \<and>
     mShuttingDown (fst (runOperation env dl s)) = mShuttingDown s"
  using applyNewConfig_mState [of env dl cfg s] applyNewConfig_fields [of env dl cfg s]
  by (cases "applyNewConfig env dl cfg s") (auto simp add: runOperation_def updateProc_def)

lemma runOperation_delete:
  "mOperationThread s = Some (DeleteProc reason) \<Longrightarrow> mState (fst (runOperation env dl s)) = Defunct"
  by (simp add: runOperation_def deleteProc_mState)

text \<open>
  C2 (as amended). On a node that is open, create a session from a well-formed
  definition whose id is not taken and which the router acknowledges in time; let the
  create operation end; delete the session; let the delete operation end. The create and
  the delete succeed and the session is Defunct, but it is still in the session map, so a
  further create with the same definition throws the 409 conflict "Session already
  exists" and changes nothing: the id of a Defunct session is not reusable.
\<close>

theorem create_delete_create_conflicts:
  assumes open_node: "\<not> mClosed ss"
    and cfg: "config = (mk (mNodeId_sessions ss))\<lparr>nodeId := mNodeId_sessions ss\<rparr>"
    and fresh: "mSessions ss (sessionId config) = None"
      "\<not> mRouterHasRoutingData (mController ss) (sessionId config)"
    and ack: "ack = Some t" "t < 10000"
    and c1: "createSession ss (WellFormed mk) ack = (r_c, ss_c, w_c, out_c)"
    and e2: "ss_r = operationCompletes env dl (sessionId config) ss_c"
    and d3: "deleteSession ss_r (sessionId config) reason = (r_d, ss_d)"
    and e4: "ss_f = operationCompletes env dl (sessionId config) ss_d"
  shows "r_c = Inr config \<and> r_d = None
     \<and> (\<exists>session. mSessions ss_f (sessionId config) = Some session \<and> mState session = Defunct)
     \<and> createSession ss_f (WellFormed mk) ack' =
         (Inl (SessionError ''Session already exists'' HTTP_RESOURCE_CONFLICT), ss_f, 0, [])"
proof -
  let ?sid = "sessionId config"
  let ?session = "new_Session ?sid (mNodeId_sessions ss)"
  let ?s1 = "(if isThisEntryNode config then ?session\<lparr>mExpirationSet := True\<rparr> else ?session)
               \<lparr>mState := Busy, mOperationThread := Some (UpdateProc config)\<rparr>"
  have i: "initializeSession (mController ss) config ack =
      (True, t, (mController ss)\<lparr>mRouterHasRoutingData :=
                   (mRouterHasRoutingData (mController ss))(?sid := True)\<rparr>,
       [Send (SessionRoutingDataMessage Initialize ?sid)])"
    using fresh ack by (simp add: initializeSession_cases WAIT_FOR_ROUTER_HAS_ROUTING_def)
  have a: "asyncUpdateConfig config
             (if isThisEntryNode config then ?session\<lparr>mExpirationSet := True\<rparr> else ?session)
           = Inr ?s1"
    using cfg by (simp add: asyncUpdateConfig_def new_Session_def)
  have c1': "createSession ss (WellFormed mk) ack =
      (Inr config,
       ss\<lparr>mSessions := (mSessions ss)(?sid \<mapsto> ?s1),
          mController := (mController ss)\<lparr>mRouterHasRoutingData :=
                   (mRouterHasRoutingData (mController ss))(?sid := True)\<rparr>\<rparr>,
       t, [Send (SessionRoutingDataMessage Initialize ?sid)])"
    using open_node fresh i a unfolding createSession_def
    by (simp add: Let_def cfg [symmetric])
  then have r_c: "r_c = Inr config"
    and ss_c: "ss_c = ss\<lparr>mSessions := (mSessions ss)(?sid \<mapsto> ?s1),
          mController := (mController ss)\<lparr>mRouterHasRoutingData :=
                   (mRouterHasRoutingData (mController ss))(?sid := True)\<rparr>\<rparr>"
    using c1 by simp_all
  let ?s2 = "fst (runOperation env dl ?s1)"
  have s1: "mState ?s1 = Busy" "mOperationThread ?s1 = Some (UpdateProc config)"
    "\<not> mShuttingDown ?s1"
    by (simp_all add: new_Session_def)
  have s2: "mState ?s2 = Free" "\<not> mShuttingDown ?s2"
    using runOperation_Busy_update [OF s1(1) s1(2), of env dl] s1(3) by simp_all
  have ss_r: "mSessions ss_r ?sid = Some ?s2" "mClosed ss_r = mClosed ss"
      "mNodeId_sessions ss_r = mNodeId_sessions ss"
    using e2 ss_c by (simp_all add: operationCompletes_def)
  let ?s3 = "?s2\<lparr>mState := Busy, mOperationThread := Some (DeleteProc reason)\<rparr>"
  have ad: "asyncDelete reason ?s2 = Inr ?s3"
    using s2 by (simp add: asyncDelete_def)
  have d3': "deleteSession ss_r ?sid reason = (None, ss_r\<lparr>mSessions := (mSessions ss_r)(?sid \<mapsto> ?s3)\<rparr>)"
    using ss_r(1) ad by (simp add: deleteSession_def)
  then have r_d: "r_d = None" and ss_d: "ss_d = ss_r\<lparr>mSessions := (mSessions ss_r)(?sid \<mapsto> ?s3)\<rparr>"
    using d3 by simp_all
  let ?s4 = "fst (runOperation env dl ?s3)"
  have s4: "mState ?s4 = Defunct"
    by (rule runOperation_delete) simp
  have ss_f: "mSessions ss_f ?sid = Some ?s4" "mClosed ss_f = mClosed ss"
      "mNodeId_sessions ss_f = mNodeId_sessions ss"
    using e4 ss_d ss_r by (simp_all add: operationCompletes_def)
  have again: "createSession ss_f (WellFormed mk) ack' =
         (Inl (SessionError ''Session already exists'' HTTP_RESOURCE_CONFLICT), ss_f, 0, [])"
    using ss_f open_node by (simp add: createSession_def Let_def cfg [symmetric])
  show ?thesis using r_c r_d ss_f(1) s4 again by blast
qed

lemma scenario_created:
  "createSession (ArrasSessions_init 5) definition_renderer (Some 3) =
     (Inr \<lparr>sessionId = 7, nodeId = 5, getComputations = [(3, ''renderer'')], isThisEntryNode = True, logLevel = - 1\<rparr>,
      \<lparr>mNodeId_sessions = 5, mClosed = False,
       mSessions = [7 \<mapsto> (new_Session 7 5)\<lparr>mExpirationSet := True, mState := Busy,
                      mOperationThread := Some (UpdateProc \<lparr>sessionId = 7, nodeId = 5, getComputations = [(3, ''renderer'')], isThisEntryNode = True, logLevel = - 1\<rparr>)\<rparr>],
       mController = \<lparr>mRouterHasRoutingData = (\<lambda>sid. False)(7 := True)\<rparr>\<rparr>,
      3, [Send (SessionRoutingDataMessage Initialize 7)])"
  by (simp add: createSession_def ArrasSessions_init_def definition_renderer_def Let_def
      initializeSession_def WAIT_FOR_ROUTER_HAS_ROUTING_def asyncUpdateConfig_def
      new_Session_def handleMessage_SessionRoutingData_def)

lemma scenario_running:
  "mSessions (operationCompletes env_ok 3 7 (fst (snd (createSession (ArrasSessions_init 5) definition_renderer (Some 3))))) 7 =
     Some ((new_Session 7 5)\<lparr>mExpirationSet := True,
        mComputations := [(3, \<lparr>comp_id = 3, comp_name = ''renderer'', mProcessState = Spawned,
                               mSentGo = False, mTerminationExpected = False\<rparr>)]\<rparr>)
   \<and> \<not> mClosed (operationCompletes env_ok 3 7 (fst (snd (createSession (ArrasSessions_init 5) definition_renderer (Some 3))))) \<and> mNodeId_sessions (operationCompletes env_ok 3 7 (fst (snd (createSession (ArrasSessions_init 5) definition_renderer (Some 3))))) = 5"
  by (simp add: scenario_created operationCompletes_def runOperation_def updateProc_def
      applyNewConfig_def getConfigDelta_def env_ok_def startNewComputation_def new_Session_def)

lemma scenario_deleting:
  "fst (deleteSession (operationCompletes env_ok 3 7 (fst (snd (createSession (ArrasSessions_init 5) definition_renderer (Some 3))))) 7 ''done'') = None
   \<and> mSessions (snd (deleteSession (operationCompletes env_ok 3 7 (fst (snd (createSession (ArrasSessions_init 5) definition_renderer (Some 3))))) 7 ''done'')) 7 =
     Some ((new_Session 7 5)\<lparr>mExpirationSet := True, mState := Busy,
        mOperationThread := Some (DeleteProc ''done''),
        mComputations := [(3, \<lparr>comp_id = 3, comp_name = ''renderer'', mProcessState = Spawned,
                               mSentGo = False, mTerminationExpected = False\<rparr>)]\<rparr>)
   \<and> \<not> mClosed (snd (deleteSession (operationCompletes env_ok 3 7 (fst (snd (createSession (ArrasSessions_init 5) definition_renderer (Some 3))))) 7 ''done'')) \<and> mNodeId_sessions (snd (deleteSession (operationCompletes env_ok 3 7 (fst (snd (createSession (ArrasSessions_init 5) definition_renderer (Some 3))))) 7 ''done'')) = 5"
  using scenario_running
  by (simp add: deleteSession_def asyncDelete_def new_Session_def)

lemma scenario_defunct:
  "mSessions (operationCompletes env_ok 3 7 (snd (deleteSession (operationCompletes env_ok 3 7 (fst (snd (createSession (ArrasSessions_init 5) definition_renderer (Some 3))))) 7 ''done''))) 7 =
     Some ((new_Session 7 5)\<lparr>mExpirationSet := True, mState := Defunct,
        mDeleteReason := ''done'',
        mComputations := [(3, \<lparr>comp_id = 3, comp_name = ''renderer'', mProcessState = Exited,
                               mSentGo = False, mTerminationExpected = True\<rparr>)]\<rparr>)
   \<and> \<not> mClosed (operationCompletes env_ok 3 7 (snd (deleteSession (operationCompletes env_ok 3 7 (fst (snd (createSession (ArrasSessions_init 5) definition_renderer (Some 3))))) 7 ''done''))) \<and> mNodeId_sessions (operationCompletes env_ok 3 7 (snd (deleteSession (operationCompletes env_ok 3 7 (fst (snd (createSession (ArrasSessions_init 5) definition_renderer (Some 3))))) 7 ''done''))) = 5"
  using scenario_deleting
  by (simp add: operationCompletes_def runOperation_def deleteProc_def env_ok_def
      new_Session_def update_comp_def shutdown_def Process_terminate_def)

text \<open>
  C2 as stated fails: after create, delete and the end of both operations, creating the
  session again from the same definition is refused.
\<close>

theorem create_delete_create_fails_counterexample:
  "fst (createSession (operationCompletes env_ok 3 7 (snd (deleteSession (operationCompletes env_ok 3 7 (fst (snd (createSession (ArrasSessions_init 5) definition_renderer (Some 3))))) 7 ''done''))) definition_renderer (Some 3))
     = Inl (SessionError ''Session already exists'' HTTP_RESOURCE_CONFLICT)"
  using scenario_defunct
  by (simp add: createSession_def definition_renderer_def Let_def)

theorem create_delete_create_conflicts_witness:
  "fst (createSession (ArrasSessions_init 5) definition_renderer (Some 3)) = Inr \<lparr>sessionId = 7, nodeId = 5, getComputations = [(3, ''renderer'')], isThisEntryNode = True, logLevel = - 1\<rparr>
   \<and> fst (deleteSession (operationCompletes env_ok 3 7 (fst (snd (createSession (ArrasSessions_init 5) definition_renderer (Some 3))))) 7 ''done'') = None
   \<and> (\<exists>session. mSessions (operationCompletes env_ok 3 7 (snd (deleteSession (operationCompletes env_ok 3 7 (fst (snd (createSession (ArrasSessions_init 5) definition_renderer (Some 3))))) 7 ''done''))) 7 = Some session \<and> mState session = Defunct)
   \<and> createSession (operationCompletes env_ok 3 7 (snd (deleteSession (operationCompletes env_ok 3 7 (fst (snd (createSession (ArrasSessions_init 5) definition_renderer (Some 3))))) 7 ''done''))) definition_renderer None =
       (Inl (SessionError ''Session already exists'' HTTP_RESOURCE_CONFLICT), operationCompletes env_ok 3 7 (snd (deleteSession (operationCompletes env_ok 3 7 (fst (snd (createSession (ArrasSessions_init 5) definition_renderer (Some 3))))) 7 ''done'')), 0, [])"
  using create_delete_create_conflicts
    [where ss = "ArrasSessions_init 5" and ack = "Some 3" and t = 3 and ack' = None
       and mk = "\<lambda>n. \<lparr>sessionId = 7, nodeId = n, getComputations = [(3, ''renderer'')],
                       isThisEntryNode = True, logLevel = - 1\<rparr>"
       and config = "\<lparr>sessionId = 7, nodeId = 5, getComputations = [(3, ''renderer'')], isThisEntryNode = True, logLevel = - 1\<rparr>"
       and env = env_ok and dl = 3 and reason = "''done''"
       and r_c = "fst (createSession (ArrasSessions_init 5) definition_renderer (Some 3))"
       and ss_c = "fst (snd (createSession (ArrasSessions_init 5) definition_renderer (Some 3)))"
       and w_c = "fst (snd (snd (createSession (ArrasSessions_init 5) definition_renderer (Some 3))))"
       and out_c = "snd (snd (snd (createSession (ArrasSessions_init 5) definition_renderer (Some 3))))"
       and ss_r = "operationCompletes env_ok 3 7 (fst (snd (createSession (ArrasSessions_init 5) definition_renderer (Some 3))))"
       and r_d = "fst (deleteSession (operationCompletes env_ok 3 7 (fst (snd (createSession (ArrasSessions_init 5) definition_renderer (Some 3))))) 7 ''done'')"
       and ss_d = "snd (deleteSession (operationCompletes env_ok 3 7 (fst (snd (createSession (ArrasSessions_init 5) definition_renderer (Some 3))))) 7 ''done'')"
       and ss_f = "operationCompletes env_ok 3 7 (snd (deleteSession (operationCompletes env_ok 3 7 (fst (snd (createSession (ArrasSessions_init 5) definition_renderer (Some 3))))) 7 ''done''))"]
  by (simp add: ArrasSessions_init_def definition_renderer_def)

section \<open>Properties of the peer registry\<close>


lemma trackClient_keeps_pending:
  "pending (trackClient sid ep pm) sid = pending pm sid"
  by (simp add: trackClient_def Let_def pending_def)


lemma stashEnvelope_stashes_or_queues:
  "(mClients pm sid = None \<longrightarrow>
      pending (stashEnvelope sid e pm) sid = pending pm sid @ [e] \<and>
      mClients (stashEnvelope sid e pm) = mClients pm)
   \<and> (mClients pm sid = Some ep \<longrightarrow>
      mClients (stashEnvelope sid e pm) sid = Some (queueEnvelope e ep) \<and>
      mPendingEnvelopes (stashEnvelope sid e pm) = mPendingEnvelopes pm)"
  by (simp add: stashEnvelope_def pending_def)

text \<open>
  C4, at the failing input. One envelope is stashed for session 7 while no client is
  connected; then a client registers and is tracked. The envelope is put on the client's
  send queue, but the pending list of session 7 still holds it, and the next client
  tracked for the session is sent the same envelope again.
\<close>

theorem trackClient_does_not_drain_stash:
  "mClients (trackClient 7
       \<lparr>mPeerType = PEER_CLIENT, mUUID = 7, mSessionId = 7, mPeer = Some \<lparr>peerNo = 1, dialedBy = 0\<rparr>,
        mNodeInfo = None, mHasRoutingData = True, mReceiveThread = True, mMessageQueue = [],
        mQueueShutdown = False, mFlaggedForDestruction = False\<rparr>
       (stashEnvelope 7 \<lparr>envelope_to = [\<lparr>session = 7, node = 0, computation = 0\<rparr>],
                         content = ''engineReady''\<rparr> PeerManager_init)) 7
     = Some \<lparr>mPeerType = PEER_CLIENT, mUUID = 7, mSessionId = 7,
             mPeer = Some \<lparr>peerNo = 1, dialedBy = 0\<rparr>,
             mNodeInfo = None, mHasRoutingData = True, mReceiveThread = True,
             mMessageQueue = [\<lparr>envelope_to = [\<lparr>session = 7, node = 0, computation = 0\<rparr>],
                               content = ''engineReady''\<rparr>],
             mQueueShutdown = False, mFlaggedForDestruction = False\<rparr>
   \<and> mPendingEnvelopes (trackClient 7
       \<lparr>mPeerType = PEER_CLIENT, mUUID = 7, mSessionId = 7, mPeer = Some \<lparr>peerNo = 1, dialedBy = 0\<rparr>,
        mNodeInfo = None, mHasRoutingData = True, mReceiveThread = True, mMessageQueue = [],
        mQueueShutdown = False, mFlaggedForDestruction = False\<rparr>
       (stashEnvelope 7 \<lparr>envelope_to = [\<lparr>session = 7, node = 0, computation = 0\<rparr>],
                         content = ''engineReady''\<rparr> PeerManager_init)) 7
     = Some [\<lparr>envelope_to = [\<lparr>session = 7, node = 0, computation = 0\<rparr>],
              content = ''engineReady''\<rparr>]
   \<and> map_option mMessageQueue
       (mClients (trackClient 7
          \<lparr>mPeerType = PEER_CLIENT, mUUID = 0, mSessionId = 0,
           mPeer = Some \<lparr>peerNo = 2, dialedBy = 0\<rparr>,
           mNodeInfo = None, mHasRoutingData = False, mReceiveThread = False, mMessageQueue = [],
           mQueueShutdown = False, mFlaggedForDestruction = False\<rparr>
          (trackClient 7
            \<lparr>mPeerType = PEER_CLIENT, mUUID = 7, mSessionId = 7,
             mPeer = Some \<lparr>peerNo = 1, dialedBy = 0\<rparr>,
             mNodeInfo = None, mHasRoutingData = True, mReceiveThread = True, mMessageQueue = [],
             mQueueShutdown = False, mFlaggedForDestruction = False\<rparr>
            (stashEnvelope 7 \<lparr>envelope_to = [\<lparr>session = 7, node = 0, computation = 0\<rparr>],
                              content = ''engineReady''\<rparr> PeerManager_init))) 7)
     = Some [\<lparr>envelope_to = [\<lparr>session = 7, node = 0, computation = 0\<rparr>],
              content = ''engineReady''\<rparr>]"
  by (simp add: trackClient_def stashEnvelope_def PeerManager_init_def pending_def
      queueEnvelope_def Let_def)

section \<open>Properties of message routing\<close>






















section \<open>Properties of node-to-node connections\<close>

lemma greaterInitiates_upd:
  assumes "greaterInitiates local nodes"
    and "mUUID ep = n" and "mPeerType ep = PEER_NODE"
    and "\<And>p. mPeer ep = Some p \<Longrightarrow> dialedBy p = max local n"
  shows "greaterInitiates local (nodes(n \<mapsto> ep))"
  using assms unfolding greaterInitiates_def by auto

lemma greaterInitiates_at:
  assumes "greaterInitiates local nodes" and "nodes n = Some ep"
  shows "mUUID ep = n" and "mPeerType ep = PEER_NODE"
    and "mPeer ep = Some p \<Longrightarrow> dialedBy p = max local n"
  using assms unfolding greaterInitiates_def by blast+

lemma greaterInitiates_connect:
  assumes "greaterInitiates local nodes" and "nodes n = Some ep"
  shows "greaterInitiates local (nodes(n \<mapsto> sendThreadWithConnect local no ep))"
proof (rule greaterInitiates_upd [OF assms(1)])
  show "mUUID (sendThreadWithConnect local no ep) = n"
    using greaterInitiates_at(1) [OF assms] by (simp add: sendThreadWithConnect_def)
  show "mPeerType (sendThreadWithConnect local no ep) = PEER_NODE"
    using greaterInitiates_at(2) [OF assms] by (simp add: sendThreadWithConnect_def)
  fix p assume p: "mPeer (sendThreadWithConnect local no ep) = Some p"
  show "dialedBy p = max local n"
  proof (cases "mUUID ep < local")
    case True
    then have "p = \<lparr>peerNo = no, dialedBy = local\<rparr>"
      using p greaterInitiates_at(2) [OF assms] by (simp add: sendThreadWithConnect_def)
    moreover have "n < local" using True greaterInitiates_at(1) [OF assms] by simp
    ultimately show ?thesis by simp
  next
    case False
    then have "mPeer ep = Some p" using p by (simp add: sendThreadWithConnect_def)
    then show ?thesis by (rule greaterInitiates_at(3) [OF assms])
  qed
qed

lemma nodeConnectFilter_cases:
  assumes "mType reg = REGISTRATION_NODE"
    and "nodeConnectFilter router reg aPeer = (outcome, router', logs)"
  shows "router' = router\<lparr>mPeerManager := (mPeerManager router)
             \<lparr>mNodes := (mNodes (mPeerManager router))
                (reg_mNodeId reg := mNodes (mPeerManager router') (reg_mNodeId reg))\<rparr>\<rparr>"
    and "reg_mNodeId reg < router_mNodeId router \<Longrightarrow>
         mNodes (mPeerManager router) (reg_mNodeId reg) = None \<Longrightarrow>
         RoutingTable_findNodeInfo (mRoutingTable router) (reg_mNodeId reg) = Some info \<Longrightarrow>
           outcome = PeerDropped \<and> logs = [] \<and>
           mNodes (mPeerManager router') (reg_mNodeId reg)
             = Some (createNodeRemoteEndpoint (reg_mNodeId reg) info)"
    and "reg_mNodeId reg < router_mNodeId router \<Longrightarrow>
         mNodes (mPeerManager router) (reg_mNodeId reg) = None \<Longrightarrow>
         RoutingTable_findNodeInfo (mRoutingTable router) (reg_mNodeId reg) = None \<Longrightarrow>
           outcome = NotForThisFilter \<and> logs = [Log_BadNodeConnection (reg_mNodeId reg)] \<and>
           router' = router"
    and "reg_mNodeId reg < router_mNodeId router \<Longrightarrow>
         mNodes (mPeerManager router) (reg_mNodeId reg) = Some ep \<Longrightarrow>
           outcome = PeerDropped \<and> logs = [] \<and> router' = router"
    and "\<not> reg_mNodeId reg < router_mNodeId router \<Longrightarrow>
         mNodes (mPeerManager router) (reg_mNodeId reg) = None \<Longrightarrow>
           outcome = PeerAdopted \<and> logs = [] \<and>
           mNodes (mPeerManager router') (reg_mNodeId reg)
             = Some \<lparr>mPeerType = PEER_NODE, mUUID = reg_mNodeId reg, mSessionId = UUID_null,
                     mPeer = Some aPeer, mNodeInfo = None, mHasRoutingData = False,
                     mReceiveThread = True, mMessageQueue = [], mQueueShutdown = False,
                     mFlaggedForDestruction = False\<rparr>"
    and "\<not> reg_mNodeId reg < router_mNodeId router \<Longrightarrow>
         mNodes (mPeerManager router) (reg_mNodeId reg) = Some ep \<Longrightarrow>
           outcome = PeerAdopted \<and> logs = [] \<and>
           mNodes (mPeerManager router') (reg_mNodeId reg) = Some (setPeer aPeer ep)"
    and "greaterInitiates (router_mNodeId router) (mNodes (mPeerManager router)) \<Longrightarrow>
         dialedBy aPeer = reg_mNodeId reg \<Longrightarrow>
           greaterInitiates (router_mNodeId router) (mNodes (mPeerManager router')) \<and>
           (\<forall>ep' no. mNodes (mPeerManager router') (reg_mNodeId reg) = Some ep' \<longrightarrow>
              greaterInitiates (router_mNodeId router)
                ((mNodes (mPeerManager router'))
                   (reg_mNodeId reg \<mapsto> sendThreadWithConnect (router_mNodeId router) no ep')))"
proof -
  let ?n = "reg_mNodeId reg"
  let ?local = "router_mNodeId router"
  let ?nodes = "mNodes (mPeerManager router)"
  let ?fresh = "\<lparr>mPeerType = PEER_NODE, mUUID = ?n, mSessionId = UUID_null,
                     mPeer = Some aPeer, mNodeInfo = None, mHasRoutingData = False,
                     mReceiveThread = True, mMessageQueue = [], mQueueShutdown = False,
                     mFlaggedForDestruction = False\<rparr>"
  have made: "new_RemoteEndpoint aPeer PEER_NODE ?n UUID_null False = Some ?fresh"
    by (simp add: new_RemoteEndpoint_def)
  have A: "?n < ?local \<Longrightarrow> ?nodes ?n = None \<Longrightarrow>
         RoutingTable_findNodeInfo (mRoutingTable router) ?n = Some info \<Longrightarrow>
         nodeConnectFilter router reg aPeer =
           (PeerDropped,
            router\<lparr>mPeerManager := trackNode ?n (createNodeRemoteEndpoint ?n info) (mPeerManager router)\<rparr>,
            [])" for info
    using assms(1) by (simp add: nodeConnectFilter_def)
  have B: "?n < ?local \<Longrightarrow> ?nodes ?n = None \<Longrightarrow>
         RoutingTable_findNodeInfo (mRoutingTable router) ?n = None \<Longrightarrow>
         nodeConnectFilter router reg aPeer = (NotForThisFilter, router, [Log_BadNodeConnection ?n])"
    using assms(1) by (simp add: nodeConnectFilter_def)
  have C: "?n < ?local \<Longrightarrow> ?nodes ?n = Some ep \<Longrightarrow>
         nodeConnectFilter router reg aPeer = (PeerDropped, router, [])" for ep
    using assms(1) by (simp add: nodeConnectFilter_def)
  have D: "\<not> ?n < ?local \<Longrightarrow> ?nodes ?n = None \<Longrightarrow>
         nodeConnectFilter router reg aPeer =
           (PeerAdopted, router\<lparr>mPeerManager := trackNode ?n ?fresh (mPeerManager router)\<rparr>, [])"
    using assms(1) made by (simp add: nodeConnectFilter_def)
  have E: "\<not> ?n < ?local \<Longrightarrow> ?nodes ?n = Some ep \<Longrightarrow>
         nodeConnectFilter router reg aPeer =
           (PeerAdopted,
            router\<lparr>mPeerManager := (mPeerManager router)\<lparr>mNodes := ?nodes(?n \<mapsto> setPeer aPeer ep)\<rparr>\<rparr>,
            [])" for ep
    using assms(1) by (simp add: nodeConnectFilter_def)
  show "?n < ?local \<Longrightarrow> ?nodes ?n = None \<Longrightarrow>
         RoutingTable_findNodeInfo (mRoutingTable router) ?n = Some info \<Longrightarrow>
           outcome = PeerDropped \<and> logs = [] \<and>
           mNodes (mPeerManager router') ?n = Some (createNodeRemoteEndpoint ?n info)"
    using A [of info] assms(2) by (auto simp add: trackNode_def)
  show "?n < ?local \<Longrightarrow> ?nodes ?n = None \<Longrightarrow>
         RoutingTable_findNodeInfo (mRoutingTable router) ?n = None \<Longrightarrow>
           outcome = NotForThisFilter \<and> logs = [Log_BadNodeConnection ?n] \<and> router' = router"
    using B assms(2) by auto
  show "?n < ?local \<Longrightarrow> ?nodes ?n = Some ep \<Longrightarrow>
           outcome = PeerDropped \<and> logs = [] \<and> router' = router"
    using C [of ep] assms(2) by auto
  show "\<not> ?n < ?local \<Longrightarrow> ?nodes ?n = None \<Longrightarrow>
           outcome = PeerAdopted \<and> logs = [] \<and> mNodes (mPeerManager router') ?n = Some ?fresh"
    using D assms(2) by (auto simp add: trackNode_def)
  show "\<not> ?n < ?local \<Longrightarrow> ?nodes ?n = Some ep \<Longrightarrow>
           outcome = PeerAdopted \<and> logs = [] \<and>
           mNodes (mPeerManager router') ?n = Some (setPeer aPeer ep)"
    using E [of ep] assms(2) by auto
  consider
      (a) info where "?n < ?local" "?nodes ?n = None"
          "RoutingTable_findNodeInfo (mRoutingTable router) ?n = Some info"
    | (b) "?n < ?local" "?nodes ?n = None"
          "RoutingTable_findNodeInfo (mRoutingTable router) ?n = None"
    | (c) old where "?n < ?local" "?nodes ?n = Some old"
    | (d) "\<not> ?n < ?local" "?nodes ?n = None"
    | (e) old where "\<not> ?n < ?local" "?nodes ?n = Some old"
    by (cases "?n < ?local"; cases "?nodes ?n";
        cases "RoutingTable_findNodeInfo (mRoutingTable router) ?n") auto
  note cases5 = this
  show "router' = router\<lparr>mPeerManager := (mPeerManager router)
             \<lparr>mNodes := ?nodes(?n := mNodes (mPeerManager router') ?n)\<rparr>\<rparr>"
  proof (cases rule: cases5)
    case a then show ?thesis using A [of info] assms(2) by (auto simp add: trackNode_def)
  next
    case b then show ?thesis using B assms(2) by (auto simp add: fun_upd_idem)
  next
    case c then show ?thesis using C [of old] assms(2) by (auto simp add: fun_upd_idem)
  next
    case d then show ?thesis using D assms(2) by (auto simp add: trackNode_def)
  next
    case e then show ?thesis using E [of old] assms(2) by auto
  qed
  show "greaterInitiates ?local ?nodes \<Longrightarrow> dialedBy aPeer = ?n \<Longrightarrow>
           greaterInitiates ?local (mNodes (mPeerManager router')) \<and>
           (\<forall>ep' no. mNodes (mPeerManager router') ?n = Some ep' \<longrightarrow>
              greaterInitiates ?local
                ((mNodes (mPeerManager router'))(?n \<mapsto> sendThreadWithConnect ?local no ep')))"
  proof -
    assume inv: "greaterInitiates ?local ?nodes" and dial: "dialedBy aPeer = ?n"
    have "greaterInitiates ?local (mNodes (mPeerManager router'))"
    proof (cases rule: cases5)
      case a
      then have "mNodes (mPeerManager router') = ?nodes(?n \<mapsto> createNodeRemoteEndpoint ?n info)"
        using A [of info] assms(2) by (auto simp add: trackNode_def)
      then show ?thesis
        using greaterInitiates_upd [OF inv, of "createNodeRemoteEndpoint ?n info" ?n]
        by (simp add: createNodeRemoteEndpoint_def)
    next
      case b then show ?thesis using B assms(2) inv by auto
    next
      case c then show ?thesis using C [of old] assms(2) inv by auto
    next
      case d
      then have "mNodes (mPeerManager router') = ?nodes(?n \<mapsto> ?fresh)"
        using D assms(2) by (auto simp add: trackNode_def)
      moreover have "max ?local ?n = ?n" using d(1) by simp
      ultimately show ?thesis
        using greaterInitiates_upd [OF inv, of ?fresh ?n] dial by simp
    next
      case e
      then have eq: "mNodes (mPeerManager router') = ?nodes(?n \<mapsto> setPeer aPeer old)"
        using E [of old] assms(2) by auto
      have m: "max ?local ?n = ?n" using e(1) by simp
      have "greaterInitiates ?local (?nodes(?n \<mapsto> setPeer aPeer old))"
      proof (rule greaterInitiates_upd [OF inv])
        show "mUUID (setPeer aPeer old) = ?n"
          using greaterInitiates_at(1) [OF inv e(2)] by (simp add: setPeer_def)
        show "mPeerType (setPeer aPeer old) = PEER_NODE"
          using greaterInitiates_at(2) [OF inv e(2)] by (simp add: setPeer_def)
        fix p assume "mPeer (setPeer aPeer old) = Some p"
        then have "p = aPeer"
          using greaterInitiates_at(2) [OF inv e(2)] by (simp add: setPeer_def)
        then show "dialedBy p = max ?local ?n" using dial m by simp
      qed
      then show ?thesis using eq by simp
    qed
    then show ?thesis using greaterInitiates_connect by blast
  qed
qed

text \<open>
  C3 (as amended). The registry holds at most one peer record per node id (it is a map),
  and the node connect filter keeps it so that a socket in use was opened by the greater
  node id. For an inbound NODE registration from node \<open>n\<close> on node \<open>local\<close>, only the
  record of \<open>n\<close> can change, and:
  \<^item> \<open>n < local\<close>, no record, node info of \<open>n\<close> found in the routing table: the socket is
    dropped and a reciprocal outbound endpoint for \<open>n\<close> is recorded;
  \<^item> \<open>n < local\<close>, no record, node info of \<open>n\<close> not found: the socket is not taken (so the
    listener closes it), \<^verbatim>\<open>BadNodeConnection\<close> is logged, and nothing is recorded;
  \<^item> \<open>n < local\<close>, existing record: the socket is dropped, nothing changes;
  \<^item> \<open>n\<close> not less than \<open>local\<close>, no record: the socket is accepted in a new record;
  \<^item> \<open>n\<close> not less than \<open>local\<close>, existing record: the socket is swapped into it.

  If the socket was opened by \<open>n\<close>, the filter preserves \<open>greaterInitiates\<close>, and so does
  the connect step of the send thread of the record of \<open>n\<close>.
\<close>

theorem node_connections_greater_initiates:
  assumes "mType reg = REGISTRATION_NODE"
    and "nodeConnectFilter router reg aPeer = (outcome, router', logs)"
  shows "router' = router\<lparr>mPeerManager := (mPeerManager router)
             \<lparr>mNodes := (mNodes (mPeerManager router))
                (reg_mNodeId reg := mNodes (mPeerManager router') (reg_mNodeId reg))\<rparr>\<rparr>
    \<and> (reg_mNodeId reg < router_mNodeId router \<and>
         mNodes (mPeerManager router) (reg_mNodeId reg) = None \<longrightarrow>
           (\<forall>info. RoutingTable_findNodeInfo (mRoutingTable router) (reg_mNodeId reg) = Some info \<longrightarrow>
              outcome = PeerDropped \<and> logs = [] \<and>
              mNodes (mPeerManager router') (reg_mNodeId reg)
                = Some (createNodeRemoteEndpoint (reg_mNodeId reg) info)) \<and>
           (RoutingTable_findNodeInfo (mRoutingTable router) (reg_mNodeId reg) = None \<longrightarrow>
              outcome = NotForThisFilter \<and> logs = [Log_BadNodeConnection (reg_mNodeId reg)] \<and>
              router' = router))
    \<and> (reg_mNodeId reg < router_mNodeId router \<and>
         mNodes (mPeerManager router) (reg_mNodeId reg) \<noteq> None \<longrightarrow>
           outcome = PeerDropped \<and> logs = [] \<and> router' = router)
    \<and> (\<not> reg_mNodeId reg < router_mNodeId router \<and>
         mNodes (mPeerManager router) (reg_mNodeId reg) = None \<longrightarrow>
           outcome = PeerAdopted \<and> logs = [] \<and>
           mNodes (mPeerManager router') (reg_mNodeId reg)
             = Some \<lparr>mPeerType = PEER_NODE, mUUID = reg_mNodeId reg, mSessionId = UUID_null,
                     mPeer = Some aPeer, mNodeInfo = None, mHasRoutingData = False,
                     mReceiveThread = True, mMessageQueue = [], mQueueShutdown = False,
                     mFlaggedForDestruction = False\<rparr>)
    \<and> (\<forall>ep. \<not> reg_mNodeId reg < router_mNodeId router \<and>
         mNodes (mPeerManager router) (reg_mNodeId reg) = Some ep \<longrightarrow>
           outcome = PeerAdopted \<and> logs = [] \<and>
           mNodes (mPeerManager router') (reg_mNodeId reg) = Some (setPeer aPeer ep))
    \<and> (greaterInitiates (router_mNodeId router) (mNodes (mPeerManager router)) \<and>
         dialedBy aPeer = reg_mNodeId reg \<longrightarrow>
           greaterInitiates (router_mNodeId router) (mNodes (mPeerManager router')) \<and>
           (\<forall>ep' no. mNodes (mPeerManager router') (reg_mNodeId reg) = Some ep' \<longrightarrow>
              greaterInitiates (router_mNodeId router)
                ((mNodes (mPeerManager router'))
                   (reg_mNodeId reg \<mapsto> sendThreadWithConnect (router_mNodeId router) no ep'))))"
proof (intro conjI)
  note c = nodeConnectFilter_cases [OF assms]
  show "router' = router\<lparr>mPeerManager := (mPeerManager router)
             \<lparr>mNodes := (mNodes (mPeerManager router))
                (reg_mNodeId reg := mNodes (mPeerManager router') (reg_mNodeId reg))\<rparr>\<rparr>"
    by (rule c(1))
  show "reg_mNodeId reg < router_mNodeId router \<and>
         mNodes (mPeerManager router) (reg_mNodeId reg) = None \<longrightarrow>
           (\<forall>info. RoutingTable_findNodeInfo (mRoutingTable router) (reg_mNodeId reg) = Some info \<longrightarrow>
              outcome = PeerDropped \<and> logs = [] \<and>
              mNodes (mPeerManager router') (reg_mNodeId reg)
                = Some (createNodeRemoteEndpoint (reg_mNodeId reg) info)) \<and>
           (RoutingTable_findNodeInfo (mRoutingTable router) (reg_mNodeId reg) = None \<longrightarrow>
              outcome = NotForThisFilter \<and> logs = [Log_BadNodeConnection (reg_mNodeId reg)] \<and>
              router' = router)"
    using c(2) c(3) by blast
  show "reg_mNodeId reg < router_mNodeId router \<and>
         mNodes (mPeerManager router) (reg_mNodeId reg) \<noteq> None \<longrightarrow>
           outcome = PeerDropped \<and> logs = [] \<and> router' = router"
    using c(4) by blast
  show "\<not> reg_mNodeId reg < router_mNodeId router \<and>
         mNodes (mPeerManager router) (reg_mNodeId reg) = None \<longrightarrow>
           outcome = PeerAdopted \<and> logs = [] \<and>
           mNodes (mPeerManager router') (reg_mNodeId reg)
             = Some \<lparr>mPeerType = PEER_NODE, mUUID = reg_mNodeId reg, mSessionId = UUID_null,
                     mPeer = Some aPeer, mNodeInfo = None, mHasRoutingData = False,
                     mReceiveThread = True, mMessageQueue = [], mQueueShutdown = False,
                     mFlaggedForDestruction = False\<rparr>"
    using c(5) by blast
  show "\<forall>ep. \<not> reg_mNodeId reg < router_mNodeId router \<and>
         mNodes (mPeerManager router) (reg_mNodeId reg) = Some ep \<longrightarrow>
           outcome = PeerAdopted \<and> logs = [] \<and>
           mNodes (mPeerManager router') (reg_mNodeId reg) = Some (setPeer aPeer ep)"
    using c(6) by blast
  show "greaterInitiates (router_mNodeId router) (mNodes (mPeerManager router)) \<and>
         dialedBy aPeer = reg_mNodeId reg \<longrightarrow>
           greaterInitiates (router_mNodeId router) (mNodes (mPeerManager router')) \<and>
           (\<forall>ep' no. mNodes (mPeerManager router') (reg_mNodeId reg) = Some ep' \<longrightarrow>
              greaterInitiates (router_mNodeId router)
                ((mNodes (mPeerManager router'))
                   (reg_mNodeId reg \<mapsto> sendThreadWithConnect (router_mNodeId router) no ep')))"
    using c(7) by blast
qed

text \<open>
  C3 as stated fails for a lesser node whose node info the routing table does not hold:
  node 4 registers on node 9, which has no record of node 4 and no session naming it. The
  socket is not taken by the filter, and no reciprocal outbound endpoint is created.
\<close>

theorem lesser_node_without_node_info_counterexample:
  "mNodes (mPeerManager (ThreadedNodeRouter_init 9)) 4 = None
   \<and> nodeConnectFilter (ThreadedNodeRouter_init 9)
       \<lparr>mType = REGISTRATION_NODE, reg_mNodeId = 4, reg_mSessionId = 0, reg_mComputationId = 0\<rparr>
       \<lparr>peerNo = 1, dialedBy = 4\<rparr>
     = (NotForThisFilter, ThreadedNodeRouter_init 9, [Log_BadNodeConnection 4])
   \<and> mNodes (mPeerManager (fst (snd (nodeConnectFilter (ThreadedNodeRouter_init 9)
       \<lparr>mType = REGISTRATION_NODE, reg_mNodeId = 4, reg_mSessionId = 0, reg_mComputationId = 0\<rparr>
       \<lparr>peerNo = 1, dialedBy = 4\<rparr>)))) 4 = None"
  by (simp add: nodeConnectFilter_def ThreadedNodeRouter_init_def PeerManager_init_def)

text \<open>
  The theorem of C3 at a concrete input: node 4 registers on node 9, which has no record
  of node 4 and knows its address from session 7. The socket is dropped, the reciprocal
  endpoint is recorded, and the socket its send thread opens is dialed by node 9.
\<close>

theorem node_connections_greater_initiates_witness:
  "nodeConnectFilter ((ThreadedNodeRouter_init 9)\<lparr>mRoutingTable := routingTable_with_node_4\<rparr>)
       \<lparr>mType = REGISTRATION_NODE, reg_mNodeId = 4, reg_mSessionId = 0, reg_mComputationId = 0\<rparr>
       \<lparr>peerNo = 1, dialedBy = 4\<rparr>
     = (PeerDropped,
        (ThreadedNodeRouter_init 9)
          \<lparr>mRoutingTable := routingTable_with_node_4,
           mPeerManager := PeerManager_init\<lparr>mNodes :=
             [4 \<mapsto> createNodeRemoteEndpoint 4
                      \<lparr>info_nodeId = 4, hostname = ''h4'', ip = ''10.0.0.4'', port = 8087\<rparr>]\<rparr>\<rparr>,
        [])
   \<and> greaterInitiates 9
       [4 \<mapsto> sendThreadWithConnect 9 2
          (createNodeRemoteEndpoint 4
             \<lparr>info_nodeId = 4, hostname = ''h4'', ip = ''10.0.0.4'', port = 8087\<rparr>)]
   \<and> mPeer (sendThreadWithConnect 9 2
          (createNodeRemoteEndpoint 4
             \<lparr>info_nodeId = 4, hostname = ''h4'', ip = ''10.0.0.4'', port = 8087\<rparr>))
       = Some \<lparr>peerNo = 2, dialedBy = 9\<rparr>"
proof -
  let ?router = "(ThreadedNodeRouter_init 9)\<lparr>mRoutingTable := routingTable_with_node_4\<rparr>"
  let ?reg = "\<lparr>mType = REGISTRATION_NODE, reg_mNodeId = 4, reg_mSessionId = 0, reg_mComputationId = 0\<rparr>"
  let ?peer = "\<lparr>peerNo = 1, dialedBy = 4\<rparr>"
  let ?info = "\<lparr>info_nodeId = 4, hostname = ''h4'', ip = ''10.0.0.4'', port = 8087\<rparr>"
  have run: "nodeConnectFilter ?router ?reg ?peer
     = (PeerDropped,
        (ThreadedNodeRouter_init 9)
          \<lparr>mRoutingTable := routingTable_with_node_4,
           mPeerManager := PeerManager_init\<lparr>mNodes := [4 \<mapsto> createNodeRemoteEndpoint 4 ?info]\<rparr>\<rparr>,
        [])"
    by (simp add: nodeConnectFilter_def ThreadedNodeRouter_init_def PeerManager_init_def
        routingTable_with_node_4_def findNodeInfo_def trackNode_def)
  have empty: "greaterInitiates 9 (mNodes (mPeerManager ?router))"
    by (simp add: greaterInitiates_def ThreadedNodeRouter_init_def PeerManager_init_def)
  have "greaterInitiates 9
       ([4 \<mapsto> createNodeRemoteEndpoint 4 ?info]
          (4 \<mapsto> sendThreadWithConnect 9 2 (createNodeRemoteEndpoint 4 ?info)))"
    using node_connections_greater_initiates
      [where router = ?router and reg = ?reg and aPeer = ?peer and outcome = PeerDropped
         and logs = "[]"
         and router' = "(ThreadedNodeRouter_init 9)
          \<lparr>mRoutingTable := routingTable_with_node_4,
           mPeerManager := PeerManager_init\<lparr>mNodes := [4 \<mapsto> createNodeRemoteEndpoint 4 ?info]\<rparr>\<rparr>"]
      run empty
    by (simp add: ThreadedNodeRouter_init_def PeerManager_init_def)
  then show ?thesis using run
    by (simp add: sendThreadWithConnect_def createNodeRemoteEndpoint_def)
qed

section \<open>Properties of client connections\<close>




end
